theory Spec2Isabelle
  imports
    Main
    "HOL-Library.Word"
    "HOL-Library.Sublist"
    "HOL-Library.List_Lexorder"
begin

section \<open>Data model\<close>

text \<open>
  A Python \<open>str\<close> is a sequence of Unicode code points, compared code point by code
  point with a proper prefix smaller than its extensions: the lexicographic order of
  \<open>nat list\<close>. Source literals are ASCII and written through \<open>str\<close>.
\<close>

type_synonym pystr = "nat list"

definition str :: "string \<Rightarrow> pystr" where
  "str s = map of_char s"

text \<open>
  The values \<open>json.loads\<close> produces: \<open>None\<close>, \<open>bool\<close>, \<open>int\<close>, \<open>float\<close>
  (an IEEE 754 binary64 bit pattern), \<open>str\<close>, \<open>list\<close> and \<open>dict\<close>. A dict is
  the list of its items in insertion order; its keys are pairwise distinct.
\<close>

datatype json =
    JNull
  | JBool bool
  | JInt int
  | JFloat "64 word"
  | JStr pystr
  | JList "json list"
  | JDict "(pystr \<times> json) list"

type_synonym pydict = "(pystr \<times> json) list"

text \<open>
  Python truth testing, as \<open>not x\<close> applies it: \<open>None\<close>, \<open>False\<close>, the integer
  zero, the floats \<open>0.0\<close> and \<open>-0.0\<close> (all bits below the sign bit clear) and the empty
  string, list and dict are false, every other value is true.
\<close>

fun truthy :: "json \<Rightarrow> bool" where
  "truthy JNull = False"
| "truthy (JBool b) = b"
| "truthy (JInt i) = (i \<noteq> 0)"
| "truthy (JFloat w) = (take_bit 63 w \<noteq> 0)"
| "truthy (JStr s) = (s \<noteq> [])"
| "truthy (JList xs) = (xs \<noteq> [])"
| "truthy (JDict d) = (d \<noteq> [])"

text \<open>\<open>d.get(k, dflt)\<close>; \<open>d.get(k)\<close> is \<open>d.get(k, None)\<close>.\<close>

definition dict_get :: "pydict \<Rightarrow> pystr \<Rightarrow> json \<Rightarrow> json" where
  "dict_get d k dflt = (case map_of d k of None \<Rightarrow> dflt | Some v \<Rightarrow> v)"

fun is_dict :: "json \<Rightarrow> bool" where
  "is_dict (JDict d) = True"
| "is_dict _ = False"

fun is_list :: "json \<Rightarrow> bool" where
  "is_list (JList xs) = True"
| "is_list _ = False"

section \<open>coding/json_validator.py\<close>

text \<open>
  The exception classes of the module, and the built-in ones that \<open>open\<close> and a text
  read raise. Each carries \<open>str(e)\<close>. Logging writes to the log stream only and
  decides no result; it is left out of the model.
\<close>

datatype builtin_error =
    FileNotFoundError pystr
  | PermissionError pystr
  | IsADirectoryError pystr
  | UnicodeDecodeError pystr

datatype exn =
    Builtin builtin_error
  | InputError pystr
  | ValidationError pystr
  | HTTPRequestError pystr

subsection \<open>filter_public\<close>

text \<open>
  The condition of both comprehensions:
  \<open>isinstance(item, dict) and not item.get("private", False)\<close>.
\<close>

fun public_entry :: "json \<Rightarrow> bool" where
  "public_entry (JDict d) = (\<not> truthy (dict_get d (str ''private'') (JBool False)))"
| "public_entry _ = False"

text \<open>
  The dict comprehension walks \<open>data.items()\<close> in order and stores the pairs that pass
  under their own, pairwise distinct keys: the items that pass, in order.
\<close>

fun filter_public :: "json \<Rightarrow> exn + json" where
  "filter_public (JList items) = Inr (JList (filter public_entry items))"
| "filter_public (JDict items) = Inr (JDict (filter (\<lambda>(k, v). public_entry v) items))"
| "filter_public _ = Inl (ValidationError (str ''unsupported top-level JSON type''))"

subsection \<open>extract_valid_keys\<close>

text \<open>
  The loop over \<open>response_map.items()\<close>, appending to \<open>valid_keys\<close>; the test is
  \<open>isinstance(val, Mapping) and val.get("valid") is True\<close>, and \<open>is True\<close> holds of
  the boolean \<open>True\<close> alone.
\<close>

fun has_valid_flag :: "json \<Rightarrow> bool" where
  "has_valid_flag (JDict d) = (dict_get d (str ''valid'') JNull = JBool True)"
| "has_valid_flag _ = False"

fun collect_valid :: "pydict \<Rightarrow> pystr list \<Rightarrow> pystr list" where
  "collect_valid [] valid_keys = valid_keys"
| "collect_valid ((key, val) # rest) valid_keys =
     (if has_valid_flag val then collect_valid rest (valid_keys @ [key])
      else collect_valid rest valid_keys)"

definition extract_valid_keys :: "pydict \<Rightarrow> pystr list" where
  "extract_valid_keys response_map = sort (collect_valid response_map [])"

subsection \<open>The world outside the program\<close>

text \<open>
  What the program reads and writes: standard input, the files, the JSON parser, the
  HTTP server behind \<open>requests.post\<close>, the calls made to \<open>requests.post\<close> and
  the lines printed. \<open>open\<close> and the text read raise built-in errors;
  \<open>json.loads\<close> raises \<open>json.JSONDecodeError\<close> alone and \<open>requests.post\<close> raises
  subclasses of \<open>RequestException\<close> alone (\<open>Inl\<close> holds \<open>str(e)\<close>).
\<close>

record post_call =
  post_url :: pystr
  post_json :: json
  post_headers :: "(pystr \<times> pystr) list"
  post_timeout :: int
  post_verify :: bool

text \<open>
  A \<open>requests.Response\<close>: the status code, the text of the \<open>HTTPError\<close> that
  \<open>raise_for_status\<close> builds for an error status, and what \<open>resp.json()\<close> gives
  (\<open>Inl\<close> for its \<open>JSONDecodeError\<close>).
\<close>

record response =
  status_code :: int
  http_error_msg :: pystr
  json_body :: "pystr + json"

record world =
  stdin_read :: "builtin_error + pystr"
  open_read :: "pystr \<Rightarrow> builtin_error + pystr"
  json_loads :: "pystr \<Rightarrow> pystr + json"
  requests_post :: "post_call \<Rightarrow> pystr + response"
  posted :: "post_call list"
  stdout :: "pystr list"

subsection \<open>load_json\<close>

text \<open>
  The \<open>try\<close> covers both branches; \<open>FileNotFoundError\<close> and
  \<open>json.JSONDecodeError\<close> are caught and raised again as \<open>InputError(str(e))\<close>,
  any other exception leaves the function as it is.
\<close>

definition load_json :: "world \<Rightarrow> pystr \<Rightarrow> exn + json" where
  "load_json w path =
     (case (if path = str ''-'' then stdin_read w else open_read w path) of
        Inl (FileNotFoundError m) \<Rightarrow> Inl (InputError m)
      | Inl e \<Rightarrow> Inl (Builtin e)
      | Inr text \<Rightarrow>
          (case json_loads w text of
             Inl m \<Rightarrow> Inl (InputError m)
           | Inr v \<Rightarrow> Inr v))"

subsection \<open>post_generate\<close>

text \<open>\<open>s.rstrip(chars)\<close>: drop from the end every character that occurs in \<open>chars\<close>.\<close>

definition rstrip :: "pystr \<Rightarrow> pystr \<Rightarrow> pystr" where
  "rstrip s chars = rev (dropWhile (\<lambda>c. c \<in> set chars) (rev s))"

text \<open>
  \<open>Response.raise_for_status\<close> of the requests library raises \<open>HTTPError\<close>, a
  \<open>RequestException\<close>, for the client and server error statuses 400 to 599 and
  returns for every other status.
\<close>

definition raise_for_status :: "response \<Rightarrow> pystr + unit" where
  "raise_for_status resp =
     (if 400 \<le> status_code resp \<and> status_code resp < 600
      then Inl (http_error_msg resp) else Inr ())"

definition post_generate ::
  "world \<Rightarrow> pystr \<Rightarrow> json \<Rightarrow> bool \<Rightarrow> int \<Rightarrow> (exn + pydict) \<times> world" where
  "post_generate w base_url payload verify timeout =
     (let url = rstrip base_url (str ''/'') @ str ''/service/generate'';
          headers = [(str ''Content-Type'', str ''application/json'')];
          call = \<lparr>post_url = url, post_json = payload, post_headers = headers,
                   post_timeout = timeout, post_verify = verify\<rparr>;
          w' = w\<lparr>posted := posted w @ [call]\<rparr>
      in case requests_post w call of
           Inl m \<Rightarrow> (Inl (HTTPRequestError m), w')
         | Inr resp \<Rightarrow>
             (case raise_for_status resp of
                Inl m \<Rightarrow> (Inl (HTTPRequestError m), w')
              | Inr u \<Rightarrow>
                  (case json_body resp of
                     Inl m \<Rightarrow> (Inl (HTTPRequestError (str ''response not valid JSON'')), w')
                   | Inr (JDict data) \<Rightarrow> (Inr data, w')
                   | Inr other \<Rightarrow>
                       (Inl (HTTPRequestError (str ''expected JSON map/object in response'')),
                        w'))))"

subsection \<open>main\<close>

text \<open>The parsed command line; \<open>parse_args\<close> runs before the \<open>try\<close>.\<close>

record args =
  input :: pystr
  url :: pystr
  insecure :: bool
  timeout :: int

fun print_keys :: "world \<Rightarrow> pystr list \<Rightarrow> world" where
  "print_keys w [] = w"
| "print_keys w (k # ks) = print_keys (w\<lparr>stdout := stdout w @ [k]\<rparr>) ks"

text \<open>The body of the \<open>try\<close>: the first exception ends it.\<close>

definition main_try :: "world \<Rightarrow> args \<Rightarrow> (exn + unit) \<times> world" where
  "main_try w a =
     (case load_json w (input a) of
        Inl e \<Rightarrow> (Inl e, w)
      | Inr raw \<Rightarrow>
          (case filter_public raw of
             Inl e \<Rightarrow> (Inl e, w)
           | Inr payload \<Rightarrow>
               (case post_generate w (url a) payload (\<not> insecure a) (timeout a) of
                  (Inl e, w') \<Rightarrow> (Inl e, w')
                | (Inr resp_map, w') \<Rightarrow>
                    (Inr (), print_keys w' (extract_valid_keys resp_map)))))"

text \<open>
  \<open>except (InputError, ValidationError, HTTPRequestError)\<close> returns 2,
  \<open>except Exception\<close> returns 1.
\<close>

fun exit_status :: "exn + unit \<Rightarrow> int" where
  "exit_status (Inr u) = 0"
| "exit_status (Inl (InputError m)) = 2"
| "exit_status (Inl (ValidationError m)) = 2"
| "exit_status (Inl (HTTPRequestError m)) = 2"
| "exit_status (Inl (Builtin e)) = 1"

definition main :: "world \<Rightarrow> args \<Rightarrow> int \<times> world" where
  "main w a = (case main_try w a of (r, w') \<Rightarrow> (exit_status r, w'))"

section \<open>terraform/modules/autoscaling/refresh\_lambda.py\<close>

text \<open>
  The exceptions of the handler: botocore's \<open>ClientError\<close> with \<open>str(e)\<close> and its
  \<open>response\<close> dict, the \<open>AttributeError\<close> of a \<open>.get\<close> on a value that has none,
  and any other subclass of \<open>Exception\<close> with \<open>str(e)\<close>.
\<close>

datatype aws_exn =
    ClientError pystr pydict
  | AttributeError pystr
  | OtherException pystr

fun exn_str :: "aws_exn \<Rightarrow> pystr" where
  "exn_str (ClientError m response) = m"
| "exn_str (AttributeError m) = m"
| "exn_str (OtherException m) = m"

text \<open>
  The process environment, \<open>boto3.client("autoscaling", **client_kwargs)\<close> (\<open>None\<close>
  when the client is built), the provider's answer to \<open>start_instance_refresh\<close> for a
  client and the keyword arguments of the call, and the remote calls made.
\<close>

record aws =
  environ :: "pystr \<Rightarrow> pystr option"
  boto3_client :: "pydict \<Rightarrow> aws_exn option"
  start_instance_refresh :: "pydict \<Rightarrow> pydict \<Rightarrow> aws_exn + pydict"
  remote_calls :: "pydict list"

fun type_name :: "json \<Rightarrow> pystr" where
  "type_name JNull = str ''NoneType''"
| "type_name (JBool b) = str ''bool''"
| "type_name (JInt i) = str ''int''"
| "type_name (JFloat w) = str ''float''"
| "type_name (JStr s) = str ''str''"
| "type_name (JList xs) = str ''list''"
| "type_name (JDict d) = str ''dict''"

text \<open>\<open>e.response.get("Error", {}).get("Code")\<close>; only a dict has \<open>get\<close>.\<close>

definition error_code :: "pydict \<Rightarrow> aws_exn + json" where
  "error_code response =
     (case dict_get response (str ''Error'') (JDict []) of
        JDict err \<Rightarrow> Inr (dict_get err (str ''Code'') JNull)
      | other \<Rightarrow>
          Inl (AttributeError
                 (str [CHR 0x27] @ type_name other @ str [CHR 0x27]
                  @ str '' object has no attribute '' @ str [CHR 0x27] @ str ''get''
                  @ str [CHR 0x27])))"

text \<open>\<open>client_kwargs\<close>: \<open>region_name\<close> is set when \<open>region\<close> is neither \<open>None\<close> nor empty.\<close>

definition client_kwargs :: "pystr option \<Rightarrow> pydict" where
  "client_kwargs region =
     (case region of
        None \<Rightarrow> []
      | Some r \<Rightarrow> if r \<noteq> [] then [(str ''region_name'', JStr r)] else [])"

text \<open>The keyword arguments of \<open>client.start_instance_refresh\<close>.\<close>

definition refresh_kwargs :: "pystr \<Rightarrow> pydict" where
  "refresh_kwargs asg =
     [(str ''AutoScalingGroupName'', JStr asg),
      (str ''Strategy'', JStr (str ''Rolling'')),
      (str ''Preferences'',
       JDict [(str ''MinHealthyPercentage'', JInt 90),
              (str ''InstanceWarmup'', JInt 300)])]"

text \<open>
  The body of the \<open>try\<close>, for a group name and the optional region.
  \<open>a or b\<close> is \<open>a\<close> when \<open>a\<close> is true and \<open>b\<close> otherwise.
\<close>

definition start_refresh :: "aws \<Rightarrow> pystr \<Rightarrow> pystr option \<Rightarrow> (aws_exn + json) \<times> aws" where
  "start_refresh w asg region =
     (case boto3_client w (client_kwargs region) of
        Some e \<Rightarrow> (Inl e, w)
      | None \<Rightarrow>
          (let w' = w\<lparr>remote_calls := remote_calls w @ [refresh_kwargs asg]\<rparr>
           in case start_instance_refresh w (client_kwargs region) (refresh_kwargs asg) of
                Inl e \<Rightarrow> (Inl e, w')
              | Inr resp \<Rightarrow>
                  (let first = dict_get resp (str ''InstanceRefreshId'') JNull;
                       instance_refresh_id =
                         (if truthy first then first
                          else dict_get resp (str ''InstanceRefreshId'')
                                 (JStr (str ''unknown'')))
                   in (Inr (JDict [(str ''status'', JStr (str ''started'')),
                                   (str ''instance_refresh_id'', instance_refresh_id),
                                   (str ''raw_response'', JDict resp)]),
                       w'))))"

definition asg_not_set :: json where
  "asg_not_set =
     JDict [(str ''status'', JStr (str ''error'')),
            (str ''message'', JStr (str ''ASG_NAME not set''))]"

text \<open>
  \<open>not asg\<close> holds of \<open>None\<close> and of the empty string. An exception raised inside
  an \<open>except\<close> block is not caught by the blocks beside it.
\<close>

definition lambda_handler :: "aws \<Rightarrow> json \<Rightarrow> json \<Rightarrow> (aws_exn + json) \<times> aws" where
  "lambda_handler w event context =
     (case environ w (str ''ASG_NAME'') of
        None \<Rightarrow> (Inr asg_not_set, w)
      | Some asg \<Rightarrow>
          if asg = [] then (Inr asg_not_set, w)
          else
            (case start_refresh w asg (environ w (str ''AWS_REGION'')) of
               (Inr result, w') \<Rightarrow> (Inr result, w')
             | (Inl (ClientError m response), w') \<Rightarrow>
                 (case error_code response of
                    Inl e \<Rightarrow> (Inl e, w')
                  | Inr code \<Rightarrow>
                      (Inr (JDict [(str ''status'', JStr (str ''error'')),
                                   (str ''message'', JStr m),
                                   (str ''code'', code)]),
                       w'))
             | (Inl e, w') \<Rightarrow>
                 (Inr (JDict [(str ''status'', JStr (str ''error'')),
                              (str ''message'', JStr (exn_str e))]),
                  w')))"

section \<open>Specification predicates and sample inputs\<close>

text \<open>
  The filter condition in the words of the specification: a keyed mapping whose
  \<open>"private"\<close> entry is absent or is not the boolean true.
\<close>

fun not_strictly_private :: "json \<Rightarrow> bool" where
  "not_strictly_private (JDict d) = (map_of d (str ''private'') \<noteq> Some (JBool True))"
| "not_strictly_private _ = False"

text \<open>
  The filter condition by truth value: a keyed mapping whose \<open>"private"\<close> entry is
  absent or false under Python's truth testing.
\<close>

fun not_private :: "json \<Rightarrow> bool" where
  "not_private (JDict d) =
     (case map_of d (str ''private'') of None \<Rightarrow> True | Some p \<Rightarrow> \<not> truthy p)"
| "not_private _ = False"

text \<open>The entries of the specification's scenarios 1 to 3, and one flagged by a number.\<close>

definition only_a :: json where
  "only_a = JDict [(str ''a'', JInt 1)]"

definition private_a :: json where
  "private_a = JDict [(str ''a'', JInt 2), (str ''private'', JBool True)]"

definition private_one :: json where
  "private_one = JDict [(str ''private'', JInt 1)]"

definition sample_response :: pydict where
  "sample_response =
     [(str ''k2'', JDict [(str ''valid'', JBool True)]),
      (str ''k1'', JDict [(str ''valid'', JBool True)]),
      (str ''k3'', JStr (str ''notadict'')),
      (str ''k4'', JDict [(str ''valid'', JInt 1)])]"

text \<open>
  A small world: a parser that knows two documents, a file system with one unreadable
  file and no other, and a server that gives the same answer to every call.
\<close>

definition sample_parser :: "pystr \<Rightarrow> pystr + json" where
  "sample_parser text =
     (if text = str ''42'' then Inr (JInt 42)
      else if text = str ''[]'' then Inr (JList [])
      else Inl (str ''Expecting value''))"

definition sample_files :: "pystr \<Rightarrow> builtin_error + pystr" where
  "sample_files path =
     (if path = str ''locked.json'' then Inl (PermissionError (str ''Permission denied''))
      else Inl (FileNotFoundError (str ''No such file or directory'')))"

definition sample_world :: "pystr \<Rightarrow> pystr + response \<Rightarrow> world" where
  "sample_world text answer =
     \<lparr>stdin_read = Inr text, open_read = sample_files, json_loads = sample_parser,
      requests_post = (\<lambda>call. answer), posted = [], stdout = []\<rparr>"

definition sample_args :: "pystr \<Rightarrow> args" where
  "sample_args path =
     \<lparr>input = path, url = str ''https://example.com/'', insecure = False, timeout = 10\<rparr>"

definition ok_response :: response where
  "ok_response =
     \<lparr>status_code = 200, http_error_msg = [], json_body = Inr (JDict sample_response)\<rparr>"





definition sample_aws :: "pystr option \<Rightarrow> aws_exn + pydict \<Rightarrow> aws" where
  "sample_aws asg answer =
     \<lparr>environ = (\<lambda>name. if name = str ''ASG_NAME'' then asg else None),
      boto3_client = (\<lambda>kwargs. None),
      start_instance_refresh = (\<lambda>kwargs call. answer),
      remote_calls = []\<rparr>"

section \<open>Helper lemmas\<close>

lemma public_entry_iff: "public_entry = not_private"
proof
  fix v show "public_entry v = not_private v"
    by (cases v) (simp_all add: dict_get_def split: option.split)
qed

lemma not_private_imp: "not_private v \<Longrightarrow> not_strictly_private v"
  by (cases v) (auto split: option.splits)

lemma map_of_filter_snd:
  "distinct (map fst xs) \<Longrightarrow>
   map_of (filter (\<lambda>(k, v). P v) xs) k =
     (case map_of xs k of None \<Rightarrow> None | Some v \<Rightarrow> if P v then Some v else None)"
proof (induction xs)
  case Nil
  then show ?case by simp
next
  case (Cons x xs)
  obtain a b where x: "x = (a, b)" by (cases x)
  from Cons.prems x have notin: "a \<notin> fst ` set xs" and d: "distinct (map fst xs)" by auto
  from notin have none: "map_of xs a = None" by (simp add: map_of_eq_None_iff)
  show ?case using Cons.IH [OF d] x none by (auto split: option.splits)
qed

lemma has_valid_flag_iff:
  "has_valid_flag v \<longleftrightarrow> (\<exists>d. v = JDict d \<and> map_of d (str ''valid'') = Some (JBool True))"
  by (cases v) (auto simp: dict_get_def split: option.splits)

lemma collect_valid_eq:
  "collect_valid m acc = acc @ map fst (filter (\<lambda>(k, v). has_valid_flag v) m)"
  by (induction m acc rule: collect_valid.induct) simp_all

lemma set_extract_valid_keys:
  "set (extract_valid_keys m) = {k. \<exists>v. (k, v) \<in> set m \<and> has_valid_flag v}"
  by (force simp: extract_valid_keys_def collect_valid_eq)

lemma distinct_extract_valid_keys:
  "distinct (map fst m) \<Longrightarrow> distinct (extract_valid_keys m)"
  by (simp add: extract_valid_keys_def collect_valid_eq distinct_map_filter)

section \<open>filter_public\<close>

text \<open>
  C1, as amended. For every list, \<open>filter_public\<close> returns a list: the elements, in
  their original order and with their multiplicity, that are dicts whose \<open>"private"\<close>
  entry is absent or false under truth testing (\<open>False\<close>, \<open>None\<close>, zero, an empty
  string, list or dict). Every retained element is therefore a dict that lacks
  \<open>"private"\<close> or has it set to a value other than the boolean true.
\<close>

theorem filter_public_list:
  "\<exists>kept. filter_public (JList items) = Inr (JList kept)
     \<and> kept = filter not_private items
     \<and> subseq kept items
     \<and> (\<forall>e \<in> set kept. not_strictly_private e)"
proof -
  have "filter public_entry items = filter not_private items"
    by (simp add: public_entry_iff)
  moreover have "\<forall>e \<in> set (filter not_private items). not_strictly_private e"
    by (simp add: not_private_imp)
  ultimately show ?thesis by simp
qed

text \<open>Scenario 1: \<open>[{"a":1},{"a":2,"private":true}]\<close> gives \<open>[{"a":1}]\<close>.\<close>

theorem filter_public_list_witness:
  "filter_public (JList [only_a, private_a]) = Inr (JList [only_a])
   \<and> only_a \<in> set [only_a] \<and> not_strictly_private only_a"
  using filter_public_list [of "[only_a, private_a]"]
  by (simp add: only_a_def private_a_def str_def)

text \<open>
  The element \<open>{"private": 1}\<close> is a dict whose \<open>"private"\<close> entry is not the
  boolean true, and \<open>not 1\<close> is false: the element is dropped.
\<close>

theorem filter_public_list_counterexample:
  "not_strictly_private private_one
   \<and> filter_public (JList [private_one]) = Inr (JList [])"
  by (simp add: private_one_def dict_get_def)

text \<open>
  C3, as amended. For every dict (its keys distinct), \<open>filter_public\<close> returns a dict
  with distinct keys, its items in their original order, in which a key is bound exactly
  when its value in the input is a dict whose \<open>"private"\<close> entry is absent or false
  under truth testing, and is then bound to that same value. Scenario 2:
  \<open>{"x":{"v":1},"y":{"v":2,"private":true}}\<close> gives \<open>{"x":{"v":1}}\<close>.
\<close>

theorem filter_public_dict:
  "(distinct (map fst items) \<longrightarrow>
      (\<exists>kept. filter_public (JDict items) = Inr (JDict kept)
         \<and> distinct (map fst kept)
         \<and> subseq kept items
         \<and> (\<forall>k. map_of kept k =
               (case map_of items k of
                  None \<Rightarrow> None
                | Some v \<Rightarrow> if not_private v then Some v else None))))
   \<and> filter_public
         (JDict [(str ''x'', JDict [(str ''v'', JInt 1)]),
                 (str ''y'', JDict [(str ''v'', JInt 2), (str ''private'', JBool True)])])
       = Inr (JDict [(str ''x'', JDict [(str ''v'', JInt 1)])])"
proof (intro conjI impI)
  assume d: "distinct (map fst items)"
  let ?kept = "filter (\<lambda>(k, v). not_private v) items"
  have "filter_public (JDict items) = Inr (JDict ?kept)"
    by (simp add: public_entry_iff)
  moreover have "distinct (map fst ?kept)" using d by (simp add: distinct_map_filter)
  moreover have "subseq ?kept items" by simp
  moreover have "\<forall>k. map_of ?kept k =
      (case map_of items k of None \<Rightarrow> None
       | Some v \<Rightarrow> if not_private v then Some v else None)"
    using map_of_filter_snd [OF d, of not_private] by simp
  ultimately show "\<exists>kept. filter_public (JDict items) = Inr (JDict kept)
         \<and> distinct (map fst kept)
         \<and> subseq kept items
         \<and> (\<forall>k. map_of kept k =
               (case map_of items k of
                  None \<Rightarrow> None
                | Some v \<Rightarrow> if not_private v then Some v else None))"
    by blast
next
  show "filter_public
         (JDict [(str ''x'', JDict [(str ''v'', JInt 1)]),
                 (str ''y'', JDict [(str ''v'', JInt 2), (str ''private'', JBool True)])])
       = Inr (JDict [(str ''x'', JDict [(str ''v'', JInt 1)])])"
    by (simp add: dict_get_def str_def)
qed

theorem filter_public_dict_witness:
  "distinct (map fst [(str ''x'', only_a), (str ''y'', private_a)])
   \<and> filter_public (JDict [(str ''x'', only_a), (str ''y'', private_a)])
       = Inr (JDict [(str ''x'', only_a)])"
proof -
  have d: "distinct (map fst [(str ''x'', only_a), (str ''y'', private_a)])"
    by (simp add: str_def)
  have e: "filter_public (JDict [(str ''x'', only_a), (str ''y'', private_a)])
       = Inr (JDict [(str ''x'', only_a)])"
    by (simp add: only_a_def private_a_def dict_get_def str_def)
  from filter_public_dict [of "[(str ''x'', only_a), (str ''y'', private_a)]"] d e
  show ?thesis by blast
qed

text \<open>
  The pair \<open>"x": {"private": 1}\<close> has a dict value whose \<open>"private"\<close> entry is not
  the boolean true; it is dropped.
\<close>

theorem filter_public_dict_counterexample:
  "not_strictly_private private_one
   \<and> filter_public (JDict [(str ''x'', private_one)]) = Inr (JDict [])"
  by (simp add: private_one_def dict_get_def)

text \<open>
  C5. A parsed value that is neither a list nor a dict makes \<open>filter_public\<close> raise
  \<open>ValidationError\<close>; when \<open>load_json\<close> returns such a value, \<open>main\<close> returns 2,
  having posted and printed nothing.
\<close>

theorem filter_public_unsupported_shape:
  "\<not> is_list data \<Longrightarrow> \<not> is_dict data \<Longrightarrow>
     filter_public data = Inl (ValidationError (str ''unsupported top-level JSON type''))
   \<and> (load_json w (input a) = Inr data \<longrightarrow> main w a = (2, w))"
  by (cases data) (simp_all add: main_def main_try_def)

theorem filter_public_unsupported_shape_witness:
  "\<not> is_list (JInt 42) \<and> \<not> is_dict (JInt 42)
   \<and> filter_public (JInt 42) = Inl (ValidationError (str ''unsupported top-level JSON type''))
   \<and> load_json (sample_world (str ''42'') (Inr ok_response)) (input (sample_args (str ''-'')))
       = Inr (JInt 42)
   \<and> fst (main (sample_world (str ''42'') (Inr ok_response)) (sample_args (str ''-''))) = 2"
proof -
  have l: "load_json (sample_world (str ''42'') (Inr ok_response)) (input (sample_args (str ''-'')))
       = Inr (JInt 42)"
    by (simp add: load_json_def sample_world_def sample_args_def sample_parser_def)
  from filter_public_unsupported_shape
         [of "JInt 42" "sample_world (str ''42'') (Inr ok_response)" "sample_args (str ''-'')"] l
  show ?thesis by simp
qed

section \<open>extract_valid_keys\<close>

text \<open>
  C2. For every response dict (its keys distinct), \<open>extract_valid_keys\<close> returns a
  list that is sorted in the lexicographic order of strings, has no duplicates, and holds
  exactly the keys whose value is a dict with \<open>"valid"\<close> bound to the boolean true. The
  function has no failing branch; the empty response gives the empty list, and scenario 3
  gives \<open>["k1"]\<close>.
\<close>

theorem extract_valid_keys_sorted_exact:
  "(distinct (map fst response_map) \<longrightarrow>
      sorted (extract_valid_keys response_map)
    \<and> distinct (extract_valid_keys response_map)
    \<and> set (extract_valid_keys response_map) =
        {k. \<exists>d. map_of response_map k = Some (JDict d)
               \<and> map_of d (str ''valid'') = Some (JBool True)})
   \<and> extract_valid_keys [] = []
   \<and> extract_valid_keys
        [(str ''k1'', JDict [(str ''valid'', JBool True)]),
         (str ''k2'', JDict [(str ''valid'', JBool False)]),
         (str ''k3'', JStr (str ''notadict''))] = [str ''k1'']"
proof (intro conjI impI)
  show "sorted (extract_valid_keys response_map)"
    by (simp add: extract_valid_keys_def)
next
  assume "distinct (map fst response_map)"
  then show "distinct (extract_valid_keys response_map)"
    by (rule distinct_extract_valid_keys)
next
  assume d: "distinct (map fst response_map)"
  have "\<And>k v. (k, v) \<in> set response_map \<longleftrightarrow> map_of response_map k = Some v"
    using d by simp
  then show "set (extract_valid_keys response_map) =
        {k. \<exists>d. map_of response_map k = Some (JDict d)
               \<and> map_of d (str ''valid'') = Some (JBool True)}"
    unfolding set_extract_valid_keys has_valid_flag_iff by blast
next
  show "extract_valid_keys [] = []"
    by (simp add: extract_valid_keys_def)
next
  show "extract_valid_keys
        [(str ''k1'', JDict [(str ''valid'', JBool True)]),
         (str ''k2'', JDict [(str ''valid'', JBool False)]),
         (str ''k3'', JStr (str ''notadict''))] = [str ''k1'']"
    by (simp add: extract_valid_keys_def dict_get_def)
qed

theorem extract_valid_keys_sorted_exact_witness:
  "distinct (map fst sample_response)
   \<and> extract_valid_keys sample_response = [str ''k1'', str ''k2'']
   \<and> sorted (extract_valid_keys sample_response)
   \<and> distinct (extract_valid_keys sample_response)"
proof -
  have d: "distinct (map fst sample_response)"
    by (simp add: sample_response_def str_def)
  have e: "extract_valid_keys sample_response = [str ''k1'', str ''k2'']"
    by (simp add: sample_response_def extract_valid_keys_def dict_get_def str_def)
  from extract_valid_keys_sorted_exact [of sample_response] d e show ?thesis
    by simp
qed

section \<open>load_json\<close>

text \<open>
  C6. A file that exists and cannot be opened: \<open>open\<close> raises \<open>PermissionError\<close>,
  which neither \<open>except\<close> clause of \<open>load_json\<close> names. It leaves \<open>load_json\<close>
  as it is, not as \<open>InputError\<close>, and \<open>main\<close> returns 1.
\<close>

theorem load_json_unreadable_file:
  "load_json (sample_world (str ''[]'') (Inr ok_response)) (str ''locked.json'')
     = Inl (Builtin (PermissionError (str ''Permission denied'')))
   \<and> fst (main (sample_world (str ''[]'') (Inr ok_response)) (sample_args (str ''locked.json'')))
     = 1"
  by (simp add: load_json_def main_def main_try_def sample_world_def sample_args_def
        sample_files_def str_def)


section \<open>main\<close>





section \<open>post_generate\<close>

lemma rstrip_decompose:
  "\<exists>n. s = rstrip s [c] @ replicate n c"
proof -
  let ?P = "\<lambda>x. x \<in> set [c]"
  have "\<forall>y \<in> set (takeWhile ?P (rev s)). y = c"
    by (auto dest: set_takeWhileD)
  then have r: "replicate (length (takeWhile ?P (rev s))) c = takeWhile ?P (rev s)"
    by (rule replicate_length_same)
  have "rev (rev s) = rev (takeWhile ?P (rev s) @ dropWhile ?P (rev s))"
    by (simp only: takeWhile_dropWhile_id)
  then have "s = rev (dropWhile ?P (rev s)) @ rev (takeWhile ?P (rev s))"
    by (simp only: rev_append rev_rev_ident)
  also have "rev (dropWhile ?P (rev s)) = rstrip s [c]"
    by (simp only: rstrip_def)
  also have "rev (takeWhile ?P (rev s)) = replicate (length (takeWhile ?P (rev s))) c"
    using r by (metis rev_replicate)
  finally show ?thesis by blast
qed

lemma rstrip_no_trailing: "\<not> suffix [c] (rstrip s [c])"
proof
  let ?d = "dropWhile (\<lambda>x. x \<in> set [c]) (rev s)"
  assume "suffix [c] (rstrip s [c])"
  then obtain zs where "rev ?d = zs @ [c]"
    by (auto simp: rstrip_def suffix_def)
  then have "?d = c # rev zs" by (metis rev_rev_ident rev_append rev.simps(2) rev.simps(1) append_Nil)
  then have "?d \<noteq> []" and "hd ?d = c" by simp_all
  with hd_dropWhile [of "\<lambda>x. x \<in> set [c]" "rev s"] show False by simp
qed

lemma str_slash: "str ''/'' = [47]"
  by (simp add: str_def)

text \<open>
  C8. Every call of \<open>post_generate\<close> makes one call of \<open>requests.post\<close>, whose
  address is the base without its trailing \<open>"/"\<close> characters followed by
  \<open>"/service/generate"\<close>: the base is that stem followed by some number of \<open>"/"\<close>,
  and the stem does not end in \<open>"/"\<close>.
\<close>

theorem post_generate_target:
  "\<exists>call. posted (snd (post_generate w base_url payload verify secs)) = posted w @ [call]
     \<and> post_url call = rstrip base_url (str ''/'') @ str ''/service/generate''
     \<and> (\<exists>n. base_url = rstrip base_url (str ''/'') @ concat (replicate n (str ''/'')))
     \<and> \<not> suffix (str ''/'') (rstrip base_url (str ''/''))"
proof -
  let ?call = "\<lparr>post_url = rstrip base_url (str ''/'') @ str ''/service/generate'',
      post_json = payload,
      post_headers = [(str ''Content-Type'', str ''application/json'')],
      post_timeout = secs, post_verify = verify\<rparr>"
  have a: "posted (snd (post_generate w base_url payload verify secs)) = posted w @ [?call]"
    by (simp add: post_generate_def Let_def split: sum.splits json.splits)
  obtain n where "base_url = rstrip base_url [47] @ replicate n 47"
    using rstrip_decompose [of base_url 47] by blast
  moreover have "concat (replicate n [47::nat]) = replicate n 47"
    by (induction n) simp_all
  ultimately have b: "\<exists>n. base_url = rstrip base_url (str ''/'') @ concat (replicate n (str ''/''))"
    unfolding str_slash by metis
  have c: "\<not> suffix (str ''/'') (rstrip base_url (str ''/''))"
    unfolding str_slash by (rule rstrip_no_trailing)
  from a b c show ?thesis by auto
qed

theorem post_generate_target_witness:
  "post_url (last (posted (snd (post_generate (sample_world (str ''[]'') (Inr ok_response))
       (str ''https://example.com//'') (JList []) True 10))))
     = str ''https://example.com/service/generate''"
proof -
  have r: "rstrip (str ''https://example.com//'') (str ''/'') = str ''https://example.com''"
    by (simp add: rstrip_def str_def)
  from post_generate_target
         [of "sample_world (str ''[]'') (Inr ok_response)" "str ''https://example.com//''"
             "JList []" True 10]
  obtain call where "posted (snd (post_generate (sample_world (str ''[]'') (Inr ok_response))
       (str ''https://example.com//'') (JList []) True 10))
        = posted (sample_world (str ''[]'') (Inr ok_response)) @ [call]"
    and "post_url call = rstrip (str ''https://example.com//'') (str ''/'')
           @ str ''/service/generate''"
    by blast
  then show ?thesis using r by (simp add: str_def)
qed




section \<open>lambda_handler\<close>






text \<open>
  C10. When the client is built and \<open>start_instance_refresh\<close> returns a response
  without the key \<open>"InstanceRefreshId"\<close>, \<open>lambda_handler\<close> returns status
  \<open>"started"\<close> with \<open>instance_refresh_id\<close> equal to the string \<open>"unknown"\<close>, and
  the response as \<open>raw_response\<close>.
\<close>

theorem lambda_handler_unknown_id:
  "environ w (str ''ASG_NAME'') = Some asg \<Longrightarrow> asg \<noteq> [] \<Longrightarrow>
   boto3_client w (client_kwargs (environ w (str ''AWS_REGION''))) = None \<Longrightarrow>
   start_instance_refresh w (client_kwargs (environ w (str ''AWS_REGION''))) (refresh_kwargs asg)
     = Inr resp \<Longrightarrow>
   map_of resp (str ''InstanceRefreshId'') = None \<Longrightarrow>
   fst (lambda_handler w event context)
     = Inr (JDict [(str ''status'', JStr (str ''started'')),
                   (str ''instance_refresh_id'', JStr (str ''unknown'')),
                   (str ''raw_response'', JDict resp)])"
  by (simp add: lambda_handler_def start_refresh_def Let_def dict_get_def)

theorem lambda_handler_unknown_id_witness:
  "environ (sample_aws (Some (str ''web'')) (Inr [])) (str ''ASG_NAME'') = Some (str ''web'')
   \<and> map_of ([] :: pydict) (str ''InstanceRefreshId'') = None
   \<and> fst (lambda_handler (sample_aws (Some (str ''web'')) (Inr [])) JNull JNull)
     = Inr (JDict [(str ''status'', JStr (str ''started'')),
                   (str ''instance_refresh_id'', JStr (str ''unknown'')),
                   (str ''raw_response'', JDict [])])"
proof -
  let ?w = "sample_aws (Some (str ''web'')) (Inr [])"
  have a: "environ ?w (str ''ASG_NAME'') = Some (str ''web'')"
    by (simp add: sample_aws_def)
  have b: "str ''web'' \<noteq> []" by (simp add: str_def)
  have c: "boto3_client ?w (client_kwargs (environ ?w (str ''AWS_REGION''))) = None"
    by (simp add: sample_aws_def)
  have d: "start_instance_refresh ?w (client_kwargs (environ ?w (str ''AWS_REGION'')))
      (refresh_kwargs (str ''web'')) = Inr []"
    by (simp add: sample_aws_def)
  have e: "map_of ([] :: pydict) (str ''InstanceRefreshId'') = None" by simp
  from lambda_handler_unknown_id [OF a b c d e, of JNull JNull] a e show ?thesis by simp
qed

end
